theory Spec2Isabelle
  imports Main "HOL-Library.Sublist"
begin

section \<open>The Jira service adapter (packages/jira/src/jira-service.ts)\<close>

subsection \<open>Values and request shapes\<close>

text \<open>
  Values that travel through the adapter untouched. An object is the list of its
  properties, each name once, in the order they were written; \<open>map_of\<close> reads
  a property. Numbers are only forwarded, never computed with, and are modelled
  as integers.
\<close>

datatype js_value =
    JUndefined
  | JNull
  | JBool bool
  | JNumber int
  | JString string
  | JArray "js_value list"
  | JObject "(string \<times> js_value) list"

type_synonym js_object = "(string \<times> js_value) list"

text \<open>
  Writing a property keeps the position of a property that exists and appends a
  new one. The spread \<open>{ ...a, ...b }\<close> starts from the empty object and writes
  the properties of \<open>a\<close>, then those of \<open>b\<close>, in their order. An engine
  enumerates integer-like names (such as \<open>10\<close>) before all others, whenever they
  were written; the list keeps the order of writing instead. The two differ in
  the position of such a property only, never in the names present or in their
  values, and nothing below depends on the position of a property.
\<close>

primrec set_property :: "string \<Rightarrow> js_value \<Rightarrow> js_object \<Rightarrow> js_object" where
  "set_property k v [] = [(k, v)]"
| "set_property k v (p # ps) = (if fst p = k then (k, v) # ps else p # set_property k v ps)"

definition copy_properties :: "js_object \<Rightarrow> js_object \<Rightarrow> js_object" where
  "copy_properties target source = fold (\<lambda>(k, v) obj. set_property k v obj) source target"

definition spread2 :: "js_object \<Rightarrow> js_object \<Rightarrow> js_object" where
  "spread2 a b = copy_properties (copy_properties [] a) b"

text \<open>The object literal \<open>{ jql, maxResults, expand, startAt }\<close> of \<open>searchIssues\<close>.\<close>

record search_request =
  jql :: string
  maxResults :: int
  expand :: "string list option"
  startAt :: "int option"

text \<open>The argument object of \<open>createIssue\<close>.\<close>

record createIssue_params =
  projectId :: string
  summary :: string
  description :: string
  issueTypeId :: string
  customFields :: "js_object option"

subsection \<open>The generated client\<close>

text \<open>
  The global configuration object \<open>OpenAPI\<close> of the generated client. The adapter
  writes the three fields below; whatever else the object holds lives in the
  extension part of the record.
\<close>

record OpenAPIConfig =
  BASE :: string
  TOKEN :: string
  VERSION :: string

text \<open>
  The calls of the generated client that the adapter makes, with their arguments
  in the order of the source: \<open>SearchService.searchUsingSearchRequest(request)\<close>,
  \<open>IssueService.getIssue(issueKey, expand)\<close>,
  \<open>IssueService.getComments(issueKey, expand)\<close>,
  \<open>IssueService.addComment(issueKey, expand, body)\<close> and
  \<open>IssueService.createIssue(validate, body)\<close>.
\<close>

datatype client_call =
    SearchService_searchUsingSearchRequest search_request
  | IssueService_getIssue string "string option"
  | IssueService_getComments string "string option"
  | IssueService_addComment string "string option" js_object
  | IssueService_createIssue bool js_object

text \<open>
  The generated client is an external collaborator and a parameter of the model:
  given a call and the current configuration it either rejects with an error
  (\<open>Inl\<close>) or resolves with a response (\<open>Inr\<close>), and hands back the configuration,
  which it is free to change.
\<close>

type_synonym ('e, 'r, 'z) client =
  "client_call \<Rightarrow> 'z OpenAPIConfig_scheme \<Rightarrow> ('e + 'r) \<times> 'z OpenAPIConfig_scheme"

text \<open>
  The state the adapter runs in: the global \<open>OpenAPI\<close> object and the calls that
  have reached the generated client, oldest first.
\<close>

record 'z world =
  OpenAPI :: "'z OpenAPIConfig_scheme"
  sent :: "client_call list"

definition request :: "('e, 'r, 'z) client \<Rightarrow> client_call \<Rightarrow> 'z world \<Rightarrow> ('e + 'r) \<times> 'z world" where
  "request cl c w =
     (case cl c (OpenAPI w) of
        (res, cfg) \<Rightarrow> (res, w\<lparr>OpenAPI := cfg, sent := sent w @ [c]\<rparr>))"

subsection \<open>Construction\<close>

text \<open>
  \<^verbatim>\<open>constructor(host: string, token: string, fullBaseUrl?: string) {
    OpenAPI.BASE = fullBaseUrl ?? `https://${host}/rest`;
    OpenAPI.TOKEN = token;
    OpenAPI.VERSION = '2';
  }\<close>
  The class has no fields of its own: constructing it only writes the global object.
\<close>

definition JiraService :: "string \<Rightarrow> string \<Rightarrow> string option \<Rightarrow> 'z world \<Rightarrow> 'z world" where
  "JiraService host token fullBaseUrl w =
     w\<lparr>OpenAPI := (OpenAPI w)
         \<lparr>BASE := (case fullBaseUrl of Some url \<Rightarrow> url | None \<Rightarrow> ''https://'' @ host @ ''/rest''),
          TOKEN := token,
          VERSION := ''2''\<rparr>\<rparr>"

subsection \<open>The operation wrapper\<close>

text \<open>
  An error value carries a message; whatever else it carries (a status, a body,
  its identity as an object) lives in the extension part of the record. The
  wrapper's error is an error with a cause.
\<close>

record js_error =
  message :: string

record 'e wrapped_error = js_error +
  cause :: 'e

text \<open>
  Modelled from the spec: \<open>handleApiOperation\<close> of the package
  \<open>@atlassian-dc-mcp/common\<close>, which \<open>jira-service.ts\<close> imports and which is not
  among the sources. The spec (4.1, 7): it invokes the operation; if the
  operation resolves, it returns the result unchanged, with no transformation and
  no retry; if the operation rejects or throws, it fails with one normalized error
  whose message is \<open><context>: <underlying message>\<close> and which retains the
  underlying failure as its cause; it has no other effect.

  An asynchronous operation awaited to its end is a function from the state
  before to the outcome (\<open>Inl\<close> a rejection or a throw, \<open>Inr\<close> the resolved value)
  and the state after.
\<close>

definition handleApiOperation ::
  "('s \<Rightarrow> ('x js_error_scheme + 'a) \<times> 's) \<Rightarrow> string \<Rightarrow> 's
     \<Rightarrow> ('x js_error_scheme wrapped_error + 'a) \<times> 's" where
  "handleApiOperation operation contextMessage s =
     (case operation s of
        (Inr result, s') \<Rightarrow> (Inr result, s')
      | (Inl error, s') \<Rightarrow>
          (Inl \<lparr>message = contextMessage @ '': '' @ message error, cause = error\<rparr>, s'))"

subsection \<open>The five operations\<close>

text \<open>
  \<^verbatim>\<open>async searchIssues(jql: string, startAt?: number, expand?: string[], maxResults: number = 10) {
    return handleApiOperation(() => {
      return SearchService.searchUsingSearchRequest({ jql, maxResults, expand, startAt });
    }, 'Error searching issues');
  }\<close>
  An optional argument is an \<open>option\<close>; the default of \<open>maxResults\<close> applies when
  the argument is not given.
\<close>

definition searchIssues ::
  "('x js_error_scheme, 'r, 'z) client \<Rightarrow> string \<Rightarrow> int option \<Rightarrow> string list option \<Rightarrow> int option
     \<Rightarrow> 'z world \<Rightarrow> ('x js_error_scheme wrapped_error + 'r) \<times> 'z world" where
  "searchIssues cl jql_arg startAt_arg expand_arg maxResults_arg =
     (let maxResults_val = (case maxResults_arg of None \<Rightarrow> 10 | Some n \<Rightarrow> n)
      in handleApiOperation
           (\<lambda>w. request cl
                  (SearchService_searchUsingSearchRequest
                     \<lparr>jql = jql_arg, maxResults = maxResults_val,
                      expand = expand_arg, startAt = startAt_arg\<rparr>) w)
           ''Error searching issues'')"

definition getIssue ::
  "('x js_error_scheme, 'r, 'z) client \<Rightarrow> string \<Rightarrow> string option
     \<Rightarrow> 'z world \<Rightarrow> ('x js_error_scheme wrapped_error + 'r) \<times> 'z world" where
  "getIssue cl issueKey expand_arg =
     handleApiOperation (\<lambda>w. request cl (IssueService_getIssue issueKey expand_arg) w)
       ''Error getting issue''"

definition getIssueComments ::
  "('x js_error_scheme, 'r, 'z) client \<Rightarrow> string \<Rightarrow> string option
     \<Rightarrow> 'z world \<Rightarrow> ('x js_error_scheme wrapped_error + 'r) \<times> 'z world" where
  "getIssueComments cl issueKey expand_arg =
     handleApiOperation (\<lambda>w. request cl (IssueService_getComments issueKey expand_arg) w)
       ''Error getting issue comments''"

text \<open>
  \<^verbatim>\<open>IssueService.addComment(issueKey, undefined, { body: comment })\<close>
\<close>

definition postIssueComment ::
  "('x js_error_scheme, 'r, 'z) client \<Rightarrow> string \<Rightarrow> string
     \<Rightarrow> 'z world \<Rightarrow> ('x js_error_scheme wrapped_error + 'r) \<times> 'z world" where
  "postIssueComment cl issueKey comment =
     handleApiOperation
       (\<lambda>w. request cl (IssueService_addComment issueKey None [(''body'', JString comment)]) w)
       ''Error posting issue comment''"

text \<open>
  \<^verbatim>\<open>const standardFields = {
    project: { key: params.projectId },
    summary: params.summary,
    description: params.description,
    issuetype: { id: params.issueTypeId }
  };
  const fields = params.customFields
    ? { ...standardFields, ...params.customFields }
    : standardFields;
  return IssueService.createIssue(true, { fields });\<close>
  An object is truthy, so the test on \<open>params.customFields\<close> is a test for its
  presence.
\<close>

definition createIssue ::
  "('x js_error_scheme, 'r, 'z) client \<Rightarrow> createIssue_params
     \<Rightarrow> 'z world \<Rightarrow> ('x js_error_scheme wrapped_error + 'r) \<times> 'z world" where
  "createIssue cl params =
     handleApiOperation
       (\<lambda>w. let standardFields =
                   [(''project'', JObject [(''key'', JString (projectId params))]),
                    (''summary'', JString (summary params)),
                    (''description'', JString (description params)),
                    (''issuetype'', JObject [(''id'', JString (issueTypeId params))])];
                 fields = (case customFields params of
                             Some custom \<Rightarrow> spread2 standardFields custom
                           | None \<Rightarrow> standardFields)
             in request cl (IssueService_createIssue True [(''fields'', JObject fields)]) w)
       ''Error creating issue''"

subsection \<open>The configuration validator\<close>

text \<open>
  The process environment maps a variable name to its value, if it has one.
  \<open>!process.env[name]\<close> is true for a missing variable and for the empty string.
\<close>

type_synonym env = "string \<rightharpoonup> string"

definition falsy :: "string option \<Rightarrow> bool" where
  "falsy v = (case v of None \<Rightarrow> True | Some s \<Rightarrow> s = [])"

definition validateConfig :: "env \<Rightarrow> string list" where
  "validateConfig process_env =
     (let requiredEnvVars = [''JIRA_API_TOKEN''];
          missingVars = filter (\<lambda>varName. falsy (process_env varName)) requiredEnvVars
      in if falsy (process_env ''JIRA_HOST'') \<and> falsy (process_env ''JIRA_API_BASE_PATH'')
         then missingVars @ [''JIRA_HOST or JIRA_API_BASE_PATH'']
         else missingVars)"

subsection \<open>Test doubles for the generated client\<close>

text \<open>
  A configuration and a state to start from, a client that resolves every call
  with the call it received, and a client that rejects every call with a given
  error. Both clients leave the configuration alone.
\<close>

definition blank_world :: "unit world" where
  "blank_world = \<lparr>OpenAPI = \<lparr>BASE = '''', TOKEN = '''', VERSION = ''''\<rparr>, sent = []\<rparr>"

definition echo_client :: "(js_error, client_call, unit) client" where
  "echo_client c cfg = (Inr c, cfg)"

definition failing_client :: "'x js_error_scheme \<Rightarrow> ('x js_error_scheme, client_call, unit) client" where
  "failing_client e c cfg = (Inl e, cfg)"

section \<open>Auxiliary facts\<close>

lemma map_of_set_property: "map_of (set_property k v obj) = (map_of obj)(k \<mapsto> v)"
  by (induction obj) (auto simp: fun_eq_iff)

lemma map_of_copy_properties:
  "map_of (copy_properties target source) = map_of target ++ map_of (rev source)"
  unfolding copy_properties_def
proof (induction source arbitrary: target)
  case Nil
  show ?case by simp
next
  case (Cons p ps)
  obtain k v where p: "p = (k, v)" by (cases p)
  show ?case
    by (simp add: p Cons.IH map_of_set_property fun_eq_iff map_add_def split: option.splits)
qed

lemma map_of_rev_distinct:
  assumes "distinct (map fst xs)"
  shows "map_of (rev xs) = map_of xs"
proof -
  have "distinct (rev (map fst xs))"
    using assms by simp
  then have "distinct (map fst (rev xs))"
    by (simp only: rev_map)
  moreover have "set (rev xs) = set xs" by simp
  ultimately show ?thesis
    using assms map_of_inject_set by blast
qed

lemma keys_set_property:
  "map fst (set_property k v obj) =
     (if k \<in> set (map fst obj) then map fst obj else map fst obj @ [k])"
  by (induction obj) auto

lemma distinct_set_property:
  "distinct (map fst obj) \<Longrightarrow> distinct (map fst (set_property k v obj))"
  by (simp add: keys_set_property)

lemma distinct_copy_properties:
  "distinct (map fst target) \<Longrightarrow> distinct (map fst (copy_properties target source))"
  unfolding copy_properties_def
proof (induction source arbitrary: target)
  case Nil
  then show ?case by simp
next
  case (Cons p ps)
  obtain k v where p: "p = (k, v)" by (cases p)
  have "distinct (map fst (set_property k v target))"
    using Cons.prems by (rule distinct_set_property)
  then show ?case
    using Cons.IH [of "set_property k v target"] by (simp add: p)
qed

lemma distinct_spread2: "distinct (map fst (spread2 a b))"
  by (simp add: spread2_def distinct_copy_properties)

lemma keys_copy_properties:
  "fst ` set (copy_properties target source) = fst ` set target \<union> fst ` set source"
proof -
  have "dom (map_of (copy_properties target source))
          = dom (map_of target) \<union> dom (map_of (rev source))"
    by (simp add: map_of_copy_properties Un_commute)
  then show ?thesis
    by (simp add: dom_map_of_conv_image_fst)
qed

lemma keys_spread2: "set (map fst (spread2 a b)) = set (map fst a) \<union> set (map fst b)"
  by (simp add: spread2_def keys_copy_properties)

lemma map_of_spread2:
  assumes "distinct (map fst a)" and "distinct (map fst b)"
  shows "map_of (spread2 a b) k = (case map_of b k of Some v \<Rightarrow> Some v | None \<Rightarrow> map_of a k)"
  using assms
  by (simp add: spread2_def map_of_copy_properties map_add_def map_of_rev_distinct
      split: option.splits)

lemma snd_handleApiOperation: "snd (handleApiOperation operation C s) = snd (operation s)"
  by (simp add: handleApiOperation_def split: prod.splits sum.splits)

lemma snd_request:
  "snd (request cl c w) = w\<lparr>OpenAPI := snd (cl c (OpenAPI w)), sent := sent w @ [c]\<rparr>"
  by (simp add: request_def split: prod.splits)

lemma falsy_simps: "falsy None" "falsy (Some s) = (s = [])"
  by (simp_all add: falsy_def)

lemma validateConfig_eq:
  "validateConfig process_env =
     (if falsy (process_env ''JIRA_API_TOKEN'') then [''JIRA_API_TOKEN''] else []) @
     (if falsy (process_env ''JIRA_HOST'') \<and> falsy (process_env ''JIRA_API_BASE_PATH'')
      then [''JIRA_HOST or JIRA_API_BASE_PATH''] else [])"
  by (simp add: validateConfig_def Let_def)

section \<open>The operation wrapper\<close>

text \<open>
  C1. For every context message \<open>C\<close> and every underlying failure \<open>E\<close>: when the
  wrapped operation rejects or throws with \<open>E\<close>, the wrapper rejects with one
  error whose message is \<open>C\<close>, a colon, a space and the message of \<open>E\<close> (so it
  starts with \<open>C\<close>), and whose cause is \<open>E\<close> itself. \<open>E\<close> ranges over every
  extension of an error value, in particular over error values that carry
  their identity, so the cause is neither a copy nor the message alone.
\<close>

theorem C1_failure_wrapped:
  assumes "operation s = (Inl E, s')"
  shows "\<exists>err. handleApiOperation operation C s = (Inl err, s') \<and>
           message err = C @ '': '' @ message E \<and>
           prefix C (message err) \<and>
           cause err = E"
  using assms by (simp add: handleApiOperation_def)

theorem C1_failure_wrapped_witness:
  "\<exists>err. getIssue (failing_client \<lparr>message = ''Not Found'', \<dots> = (404::nat)\<rparr>) ''PROJ-1'' None
              blank_world
            = (Inl err, blank_world\<lparr>sent := [IssueService_getIssue ''PROJ-1'' None]\<rparr>) \<and>
         message err = ''Error getting issue: Not Found'' \<and>
         prefix ''Error getting issue'' (message err) \<and>
         cause err = \<lparr>message = ''Not Found'', \<dots> = (404::nat)\<rparr>"
proof -
  let ?E = "\<lparr>message = ''Not Found'', \<dots> = (404::nat)\<rparr>"
  let ?w = "blank_world\<lparr>sent := [IssueService_getIssue ''PROJ-1'' None]\<rparr>"
  have run: "request (failing_client ?E) (IssueService_getIssue ''PROJ-1'' None) blank_world
               = (Inl ?E, ?w)"
    by (simp add: request_def failing_client_def blank_world_def)
  show ?thesis
    using run
      C1_failure_wrapped [of "request (failing_client ?E) (IssueService_getIssue ''PROJ-1'' None)"
                             blank_world ?E ?w "''Error getting issue''"]
    by (simp add: getIssue_def)
qed

text \<open>
  C6. For every wrapped operation that resolves, the wrapper resolves with the
  same value and leaves the state exactly as the one invocation of the operation
  left it: no transformation, no second invocation, no other effect.
\<close>

theorem C6_success_unchanged:
  assumes "operation s = (Inr v, s')"
  shows "handleApiOperation operation C s = (Inr v, s')"
  using assms by (simp add: handleApiOperation_def)

theorem C6_success_unchanged_witness:
  "getIssueComments echo_client ''PROJ-1'' (Some ''renderedBody'') blank_world
     = (Inr (IssueService_getComments ''PROJ-1'' (Some ''renderedBody'')),
        blank_world\<lparr>sent := [IssueService_getComments ''PROJ-1'' (Some ''renderedBody'')]\<rparr>)"
proof -
  have run: "request echo_client (IssueService_getComments ''PROJ-1'' (Some ''renderedBody'')) blank_world
             = (Inr (IssueService_getComments ''PROJ-1'' (Some ''renderedBody'')),
                blank_world\<lparr>sent := [IssueService_getComments ''PROJ-1'' (Some ''renderedBody'')]\<rparr>)"
    by (simp add: request_def echo_client_def blank_world_def)
  show ?thesis
    using run
      C6_success_unchanged [of "request echo_client
                                  (IssueService_getComments ''PROJ-1'' (Some ''renderedBody''))"
                               blank_world
                               "IssueService_getComments ''PROJ-1'' (Some ''renderedBody'')"
                               "blank_world\<lparr>sent := [IssueService_getComments ''PROJ-1'' (Some ''renderedBody'')]\<rparr>"
                               "''Error getting issue comments''"]
    by (simp add: getIssueComments_def)
qed

section \<open>What the operations forward\<close>

text \<open>
  C5. Every call to \<open>searchIssues\<close> makes one search call on the generated client,
  whose single request object holds \<open>jql\<close>, \<open>startAt\<close>, \<open>expand\<close> and
  \<open>maxResults\<close> as given; when \<open>maxResults\<close> is not given the request holds 10.
\<close>

theorem C5_search_request:
  "sent (snd (searchIssues cl q start ex (Some n) w))
     = sent w @ [SearchService_searchUsingSearchRequest
                   \<lparr>jql = q, maxResults = n, expand = ex, startAt = start\<rparr>] \<and>
   sent (snd (searchIssues cl q start ex None w))
     = sent w @ [SearchService_searchUsingSearchRequest
                   \<lparr>jql = q, maxResults = 10, expand = ex, startAt = start\<rparr>]"
  by (simp add: searchIssues_def snd_handleApiOperation snd_request)

text \<open>
  C8. Every call to \<open>postIssueComment\<close> with issue key \<open>k\<close> and comment \<open>c\<close>
  makes one add-comment call on the generated client, for \<open>k\<close>, with no expand
  argument and with the object \<open>{ body: c }\<close>; the text \<open>c\<close> arrives as it was
  given, whatever it is.
\<close>

theorem C8_comment_body:
  "sent (snd (postIssueComment cl k c w))
     = sent w @ [IssueService_addComment k None [(''body'', JString c)]]"
  by (simp add: postIssueComment_def snd_handleApiOperation snd_request)

text \<open>
  C2. Every call to \<open>createIssue\<close> makes one create-issue call on the generated
  client, with the validation flag \<open>true\<close> and the body \<open>{ fields }\<close>. Without
  custom fields, \<open>fields\<close> is the standard object
  \<open>{ project: {key: p}, summary: s, description: d, issuetype: {id: t} }\<close>.
  With custom fields \<open>m\<close> (an object, so no property occurs twice),
  \<open>fields\<close> is again an object, with no property twice; every property of
  \<open>m\<close> is in it with the value \<open>m\<close> gives it, whole, every other property
  is the standard one, and there is no further property: the entries of \<open>m\<close>
  replace the standard ones of the same name.
\<close>

theorem C2_createIssue_fields:
  "(let standard = [(''project'', JObject [(''key'', JString p)]),
                    (''summary'', JString s),
                    (''description'', JString d),
                    (''issuetype'', JObject [(''id'', JString t)])]
    in sent (snd (createIssue cl \<lparr>projectId = p, summary = s, description = d,
                                   issueTypeId = t, customFields = None\<rparr> w))
         = sent w @ [IssueService_createIssue True [(''fields'', JObject standard)]] \<and>
       (distinct (map fst m) \<longrightarrow>
         (\<exists>fields.
            sent (snd (createIssue cl \<lparr>projectId = p, summary = s, description = d,
                                       issueTypeId = t, customFields = Some m\<rparr> w))
              = sent w @ [IssueService_createIssue True [(''fields'', JObject fields)]] \<and>
            distinct (map fst fields) \<and>
            set (map fst fields) = set (map fst standard) \<union> set (map fst m) \<and>
            (\<forall>k. map_of fields k =
               (case map_of m k of Some v \<Rightarrow> Some v | None \<Rightarrow> map_of standard k)))))"
proof -
  let ?std = "[(''project'', JObject [(''key'', JString p)]),
               (''summary'', JString s),
               (''description'', JString d),
               (''issuetype'', JObject [(''id'', JString t)])]"
  have absent:
    "sent (snd (createIssue cl \<lparr>projectId = p, summary = s, description = d,
                                 issueTypeId = t, customFields = None\<rparr> w))
       = sent w @ [IssueService_createIssue True [(''fields'', JObject ?std)]]"
    by (simp add: createIssue_def snd_handleApiOperation snd_request)
  have present:
    "\<exists>fields.
       sent (snd (createIssue cl \<lparr>projectId = p, summary = s, description = d,
                                  issueTypeId = t, customFields = Some m\<rparr> w))
         = sent w @ [IssueService_createIssue True [(''fields'', JObject fields)]] \<and>
       distinct (map fst fields) \<and>
       set (map fst fields) = set (map fst ?std) \<union> set (map fst m) \<and>
       (\<forall>k. map_of fields k =
          (case map_of m k of Some v \<Rightarrow> Some v | None \<Rightarrow> map_of ?std k))"
    if m: "distinct (map fst m)"
  proof -
    have std: "distinct (map fst ?std)" by simp
    have call:
      "sent (snd (createIssue cl \<lparr>projectId = p, summary = s, description = d,
                                   issueTypeId = t, customFields = Some m\<rparr> w))
         = sent w @ [IssueService_createIssue True [(''fields'', JObject (spread2 ?std m))]]"
      by (simp add: createIssue_def snd_handleApiOperation snd_request)
    have once: "distinct (map fst (spread2 ?std m))"
      by (rule distinct_spread2)
    have look:
      "\<forall>k. map_of (spread2 ?std m) k =
         (case map_of m k of Some v \<Rightarrow> Some v | None \<Rightarrow> map_of ?std k)"
      using map_of_spread2 [OF std m] by blast
    have names: "set (map fst (spread2 ?std m)) = set (map fst ?std) \<union> set (map fst m)"
      by (rule keys_spread2)
    from call once names look show ?thesis by blast
  qed
  from absent present show ?thesis
    unfolding Let_def by blast
qed

text \<open>
  The example of the spec: custom fields \<open>{ summary: "override" }\<close> with the
  summary \<open>"original"\<close> give a \<open>fields\<close> object whose one summary is
  \<open>"override"\<close>.
\<close>

theorem C2_createIssue_fields_witness:
  "distinct (map fst [(''summary'', JString ''override'')]) \<and>
   (\<exists>fields.
      sent (snd (createIssue echo_client
                   \<lparr>projectId = ''PROJ'', summary = ''original'', description = ''text'',
                    issueTypeId = ''3'',
                    customFields = Some [(''summary'', JString ''override'')]\<rparr> blank_world))
        = [IssueService_createIssue True [(''fields'', JObject fields)]] \<and>
      distinct (map fst fields) \<and>
      set (map fst fields) = {''project'', ''summary'', ''description'', ''issuetype''} \<and>
      map_of fields ''summary'' = Some (JString ''override'') \<and>
      map_of fields ''project'' = Some (JObject [(''key'', JString ''PROJ'')]))"
proof -
  have keys: "distinct (map fst [(''summary'', JString ''override'')])"
    by simp
  obtain fields where
    call: "sent (snd (createIssue echo_client
                   \<lparr>projectId = ''PROJ'', summary = ''original'', description = ''text'',
                    issueTypeId = ''3'',
                    customFields = Some [(''summary'', JString ''override'')]\<rparr> blank_world))
        = sent blank_world @ [IssueService_createIssue True [(''fields'', JObject fields)]]"
    and once: "distinct (map fst fields)"
    and names: "set (map fst fields) =
           set (map fst [(''project'', JObject [(''key'', JString ''PROJ'')]),
                         (''summary'', JString ''original''),
                         (''description'', JString ''text''),
                         (''issuetype'', JObject [(''id'', JString ''3'')])])
           \<union> set (map fst [(''summary'', JString ''override'')])"
    and look: "\<And>k. map_of fields k =
           (case map_of [(''summary'', JString ''override'')] k of
              Some v \<Rightarrow> Some v
            | None \<Rightarrow>
                map_of [(''project'', JObject [(''key'', JString ''PROJ'')]),
                        (''summary'', JString ''original''),
                        (''description'', JString ''text''),
                        (''issuetype'', JObject [(''id'', JString ''3'')])] k)"
    using keys
      C2_createIssue_fields [where cl = echo_client and p = "''PROJ''" and s = "''original''"
                               and d = "''text''" and t = "''3''" and w = blank_world
                               and m = "[(''summary'', JString ''override'')]"]
    unfolding Let_def by blast
  have "map_of fields ''summary'' = Some (JString ''override'')"
    using look [of "''summary''"] by simp
  moreover have "map_of fields ''project'' = Some (JObject [(''key'', JString ''PROJ'')])"
    using look [of "''project''"] by simp
  moreover have "sent blank_world = []"
    by (simp add: blank_world_def)
  moreover have "set (map fst fields) = {''project'', ''summary'', ''description'', ''issuetype''}"
    using names by auto
  ultimately show ?thesis
    using keys call once by auto
qed

section \<open>Construction and the configuration\<close>

text \<open>
  C4. For every construction of the facade: with a \<open>fullBaseUrl\<close> override the
  client's base URL is exactly that URL; without one it is \<open>https://{host}/rest\<close>.
\<close>

theorem C4_base_url:
  "BASE (OpenAPI (JiraService host token (Some url) w)) = url \<and>
   BASE (OpenAPI (JiraService host token None w)) = ''https://'' @ host @ ''/rest''"
  by (simp add: JiraService_def)




text \<open>
  C9. Every construction, whatever the host, the token and the override, sets the
  API version to the string \<open>2\<close>; the constructor has no argument for it. None of
  the five operations changes it: as long as the generated client does not change
  the version in a call, the version after each operation is the version before.
\<close>

theorem C9_api_version:
  assumes "\<forall>c cfg. VERSION (snd (cl c cfg)) = VERSION cfg"
  shows "VERSION (OpenAPI (JiraService host token url w0)) = ''2'' \<and>
         VERSION (OpenAPI (snd (searchIssues cl q start ex n w))) = VERSION (OpenAPI w) \<and>
         VERSION (OpenAPI (snd (getIssue cl k e w))) = VERSION (OpenAPI w) \<and>
         VERSION (OpenAPI (snd (getIssueComments cl k e w))) = VERSION (OpenAPI w) \<and>
         VERSION (OpenAPI (snd (postIssueComment cl k c w))) = VERSION (OpenAPI w) \<and>
         VERSION (OpenAPI (snd (createIssue cl params w))) = VERSION (OpenAPI w)"
  using assms
  by (simp add: searchIssues_def getIssue_def getIssueComments_def postIssueComment_def
      createIssue_def JiraService_def snd_handleApiOperation snd_request Let_def)

theorem C9_api_version_witness:
  "(\<forall>c cfg. VERSION (snd (failing_client \<lparr>message = ''Unauthorized''\<rparr> c cfg)) = VERSION cfg) \<and>
   VERSION (OpenAPI (JiraService ''a.example.org'' ''token-a'' (Some ''https://jira.local/api'')
                       blank_world)) = ''2'' \<and>
   VERSION (OpenAPI (snd (postIssueComment (failing_client \<lparr>message = ''Unauthorized''\<rparr>)
                            ''PROJ-1'' ''hello''
                            (JiraService ''a.example.org'' ''token-a'' None blank_world)))) = ''2''"
proof -
  have quiet: "\<forall>c cfg. VERSION (snd (failing_client \<lparr>message = ''Unauthorized''\<rparr> c cfg)) = VERSION cfg"
    by (simp add: failing_client_def)
  show ?thesis
    using quiet
      C9_api_version [OF quiet,
        where host = "''a.example.org''" and token = "''token-a''"
          and url = "Some ''https://jira.local/api''" and ?w0.0 = blank_world
          and k = "''PROJ-1''" and c = "''hello''"
          and w = "JiraService ''a.example.org'' ''token-a'' None blank_world"]
    by (simp add: JiraService_def)
qed

section \<open>The configuration validator\<close>

text \<open>
  C3, as the claim states it, fails: a variable set to the empty string is set,
  and is reported as missing all the same.
\<close>

theorem C3_set_but_empty:
  "validateConfig [''JIRA_API_TOKEN'' \<mapsto> '''', ''JIRA_HOST'' \<mapsto> '''']
     = [''JIRA_API_TOKEN'', ''JIRA_HOST or JIRA_API_BASE_PATH'']"
  by (simp add: validateConfig_def falsy_simps)

text \<open>
  C3, amended. \<open>validateConfig\<close> is a function of the environment alone and
  returns the names of the missing settings as data. When none of the three
  variables is set it returns the token variable's name and the combined
  descriptor; when the token variable and the host variable are both set to values
  that are not empty it returns the empty sequence.
\<close>

theorem C3_missing_settings:
  "(process_env ''JIRA_API_TOKEN'' = None \<and> process_env ''JIRA_HOST'' = None \<and>
    process_env ''JIRA_API_BASE_PATH'' = None
      \<longrightarrow> validateConfig process_env = [''JIRA_API_TOKEN'', ''JIRA_HOST or JIRA_API_BASE_PATH''])
   \<and>
   (process_env ''JIRA_API_TOKEN'' = Some tok \<and> tok \<noteq> [] \<and>
    process_env ''JIRA_HOST'' = Some host \<and> host \<noteq> []
      \<longrightarrow> validateConfig process_env = [])"
  by (simp add: validateConfig_def falsy_simps)

theorem C3_missing_settings_witness:
  "validateConfig Map.empty = [''JIRA_API_TOKEN'', ''JIRA_HOST or JIRA_API_BASE_PATH''] \<and>
   validateConfig [''JIRA_API_TOKEN'' \<mapsto> ''secret'', ''JIRA_HOST'' \<mapsto> ''jira.example.org''] = []"
  using C3_missing_settings [of Map.empty]
    C3_missing_settings [of "[''JIRA_API_TOKEN'' \<mapsto> ''secret'', ''JIRA_HOST'' \<mapsto> ''jira.example.org'']"
                            "''secret''" "''jira.example.org''"]
  by simp

text \<open>
  C10. A variable set to the empty string counts as an absent one: the result is
  the same for both, so an empty token variable is reported, and so is the
  descriptor when host and base path are each empty or absent. The order is
  fixed: the result is one of the four sequences below, and where both names
  occur the token variable's name comes first.
\<close>

theorem C10_empty_is_missing_and_order:
  "validateConfig (process_env(name \<mapsto> '''')) = validateConfig (process_env(name := None)) \<and>
   ''JIRA_API_TOKEN'' \<in> set (validateConfig (process_env(''JIRA_API_TOKEN'' \<mapsto> ''''))) \<and>
   ''JIRA_HOST or JIRA_API_BASE_PATH''
      \<in> set (validateConfig (process_env(''JIRA_HOST'' \<mapsto> '''', ''JIRA_API_BASE_PATH'' \<mapsto> ''''))) \<and>
   validateConfig process_env
      \<in> {[], [''JIRA_API_TOKEN''], [''JIRA_HOST or JIRA_API_BASE_PATH''],
          [''JIRA_API_TOKEN'', ''JIRA_HOST or JIRA_API_BASE_PATH'']}"
proof (intro conjI)
  show "validateConfig (process_env(name \<mapsto> '''')) = validateConfig (process_env(name := None))"
    by (simp add: validateConfig_eq falsy_simps)
  show "''JIRA_API_TOKEN'' \<in> set (validateConfig (process_env(''JIRA_API_TOKEN'' \<mapsto> '''')))"
    by (simp add: validateConfig_eq falsy_simps)
  show "''JIRA_HOST or JIRA_API_BASE_PATH''
      \<in> set (validateConfig (process_env(''JIRA_HOST'' \<mapsto> '''', ''JIRA_API_BASE_PATH'' \<mapsto> '''')))"
    by (simp add: validateConfig_eq falsy_simps)
  show "validateConfig process_env
      \<in> {[], [''JIRA_API_TOKEN''], [''JIRA_HOST or JIRA_API_BASE_PATH''],
          [''JIRA_API_TOKEN'', ''JIRA_HOST or JIRA_API_BASE_PATH'']}"
    by (simp add: validateConfig_eq)
qed

end
